theory Spec2Isabelle
  imports Main
begin

section \<open>The markdown file tracker (markdownExtension.ts)\<close>

text \<open>
  \<open>MarkdownFileTracker\<close> keeps the open markdown previews in step with four event
  sources of the workbench. The class is modelled with explicit state passing: one record
  holds the fields of the tracker, the closure variables of its callbacks and the part of
  the workbench the tracker reads or changes (registered listeners, pending timers, the
  editors, the live models). Every call the tracker makes on a service, and every
  invocation of \<open>reloadMarkdownEditors\<close>, is appended to a trace.
\<close>

subsection \<open>Data\<close>

text \<open>A resource is identified by \<open>URI.toString()\<close>, the only use the tracker makes of it.\<close>

type_synonym resource = string

text \<open>
  An editor input is either a \<open>MarkdownEditorInput\<close> (with an object identity and the
  resource it previews) or any other value, for which \<open>instanceof MarkdownEditorInput\<close>
  is false.
\<close>

datatype editor_input = MarkdownEditorInput nat resource | OtherInput

record editor =
  ed_id :: nat
  ed_input :: editor_input
  ed_iframe :: bool

text \<open>The configuration tree, as far as \<open>readMarkdownConfiguration\<close> inspects it.\<close>

datatype styles_value = StylesUndefined | StylesNotArray | StylesArray "string list"

record markdown_configuration =
  styles :: styles_value

record language_configuration =
  markdown :: "markdown_configuration option"

text \<open>The thumbprint field is \<open>undefined\<close>, \<open>null\<close> or a string, compared with \<open>!==\<close>.\<close>

datatype thumbprint = Undefined | Null | Str string

datatype FileChangeType = UPDATED | ADDED | DELETED

record file_change =
  fc_resource :: resource
  fc_type :: FileChangeType

datatype listener_kind = FILE_CHANGES | UpdateConfiguration | EditorsChangedK | ThemeChange

text \<open>
  A disposable is a registration of a callback with one of the event sources. The three
  per-document registrations carry the object they are registered on and the number of
  the \<open>onEditorsChanged\<close> invocation whose closure (\<open>toUnbind\<close>, \<open>markdownResource\<close>)
  their callback refers to.
\<close>

datatype disposable =
    TopLevel listener_kind
  | ContentListener resource nat
  | InputDisposeListener nat nat
  | ModelDisposeListener resource nat

record closure =
  cl_markdownResource :: resource
  cl_toUnbind :: "disposable list"

record timer =
  t_id :: nat
  t_due :: nat
  t_closure :: nat

datatype call =
    GetTheme
  | ConfigureMode string string
  | AddListener disposable
  | Dispose disposable
  | GetConfiguration
  | ToResource string
  | ReloadMarkdownEditors bool "resource option"
  | EditorReload nat bool
  | ClearTimeout nat
  | SetTimeout nat nat

text \<open>
  The functions of other modules that the tracker calls on strings: \<open>paths.normalize\<close>,
  \<open>paths.makePosixAbsolute\<close>, \<open>contextService.toResource\<close> and \<open>getBaseThemeId\<close>.
  They are parameters of the model.
\<close>

record services =
  paths_normalize :: "string \<Rightarrow> string"
  paths_makePosixAbsolute :: "string \<Rightarrow> string"
  toResource :: "string \<Rightarrow> resource"
  getBaseThemeId :: "string \<Rightarrow> string"

record world =
  fileChangeListener :: "disposable option"
  configFileChangeListener :: "disposable option"
  themeChangeListener :: "disposable option"
  editorInputChangeListener :: "disposable option"
  markdownConfigurationThumbprint :: thumbprint
  markdownConfigurationPaths :: "string list"
  reloadTimeout :: "nat option"
  hasModelListenerOnResourcePath :: "resource \<rightharpoonup> bool"
  closures :: "nat \<Rightarrow> closure"
  next_closure :: nat
  listeners :: "disposable list"
  timers :: "timer list"
  next_timer :: nat
  now :: nat
  activeEditorInput :: "editor_input option"
  visibleEditors :: "editor list"
  models :: "resource list"
  trace :: "call list"

definition RELOAD_MARKDOWN_DELAY :: nat where
  "RELOAD_MARKDOWN_DELAY = 300"

subsection \<open>Calls on the workbench\<close>

definition emit :: "call \<Rightarrow> world \<Rightarrow> world" where
  "emit c w = w\<lparr>trace := trace w @ [c]\<rparr>"

definition addListener :: "disposable \<Rightarrow> world \<Rightarrow> world" where
  "addListener d w = emit (AddListener d) (w\<lparr>listeners := listeners w @ [d]\<rparr>)"

definition dispose_one :: "disposable \<Rightarrow> world \<Rightarrow> world" where
  "dispose_one d w = emit (Dispose d) (w\<lparr>listeners := removeAll d (listeners w)\<rparr>)"

text \<open>
  Modelled from the spec: the helper \<open>dispose\<close> of \<open>vs/base/common/lifecycle\<close> is not
  among the sources. Tearing a listener bundle down severs each of its subscriptions; the
  helper's result, assigned to \<open>toUnbind\<close>, is the empty array.
\<close>

definition dispose_all :: "disposable list \<Rightarrow> world \<Rightarrow> world" where
  "dispose_all ds w = fold dispose_one ds w"

text \<open>
  \<open>setTimeout\<close> hands out a fresh handle, which is never 0, and \<open>clearTimeout\<close> drops
  the pending timer with the given handle, if there is one.
\<close>

definition setTimeout :: "nat \<Rightarrow> nat \<Rightarrow> world \<Rightarrow> nat \<times> world" where
  "setTimeout c delay w =
     (next_timer w,
      emit (SetTimeout (next_timer w) delay)
        (w\<lparr>timers := timers w @ [\<lparr>t_id = next_timer w, t_due = now w + delay, t_closure = c\<rparr>],
           next_timer := Suc (next_timer w)\<rparr>))"

definition clearTimeout :: "nat \<Rightarrow> world \<Rightarrow> world" where
  "clearTimeout h w = emit (ClearTimeout h) (w\<lparr>timers := filter (\<lambda>t. t_id t \<noteq> h) (timers w)\<rparr>)"

text \<open>
  Modelled from the spec: \<open>FileChangesEvent.containsAny\<close> of
  \<open>vs/platform/files/common/files\<close> is not among the sources. It tests whether the event
  set contains a change of the given kind for any of the given resources.
\<close>

definition containsAny :: "file_change list \<Rightarrow> resource list \<Rightarrow> FileChangeType \<Rightarrow> bool" where
  "containsAny e rs ty = list_ex (\<lambda>c. fc_type c = ty \<and> fc_resource c \<in> set rs) e"

subsection \<open>The methods of the tracker\<close>

definition is_reload_target :: "resource option \<Rightarrow> editor \<Rightarrow> bool" where
  "is_reload_target res e =
     (case ed_input e of
        MarkdownEditorInput i r \<Rightarrow> ed_iframe e \<and> (res = None \<or> res = Some r)
      | OtherInput \<Rightarrow> False)"

primrec reloadLoop :: "bool \<Rightarrow> resource option \<Rightarrow> editor list \<Rightarrow> bool \<times> world \<Rightarrow> bool \<times> world" where
  "reloadLoop clearIFrame res [] acc = acc"
| "reloadLoop clearIFrame res (e # es) acc =
     reloadLoop clearIFrame res es
       (if is_reload_target res e
        then (True, emit (EditorReload (ed_id e) clearIFrame) (snd acc))
        else acc)"

definition reloadMarkdownEditors :: "bool \<Rightarrow> resource option \<Rightarrow> world \<Rightarrow> bool \<times> world" where
  "reloadMarkdownEditors clearIFrame res w =
     reloadLoop clearIFrame res (visibleEditors w)
       (False, emit (ReloadMarkdownEditors clearIFrame res) w)"

definition configureMode :: "services \<Rightarrow> string option \<Rightarrow> world \<Rightarrow> world" where
  "configureMode sv theme w =
     (case theme of
        None \<Rightarrow> w
      | Some t \<Rightarrow>
          if t \<noteq> [] then emit (ConfigureMode ''text/x-web-markdown'' (getBaseThemeId sv t)) w
          else w)"

definition readMarkdownConfiguration ::
    "services \<Rightarrow> language_configuration option \<Rightarrow> world \<Rightarrow> bool \<times> world" where
  "readMarkdownConfiguration sv languageConfiguration w =
     (let oldMarkdownConfigurationThumbprint = markdownConfigurationThumbprint w;
          w1 = w\<lparr>markdownConfigurationThumbprint := Null, markdownConfigurationPaths := []\<rparr>;
          (newMarkdownConfigurationThumbprint, w2) =
            (case languageConfiguration of
               None \<Rightarrow> (Undefined, w1)
             | Some lc \<Rightarrow>
                 (case markdown lc of
                    None \<Rightarrow> (Undefined, w1)
                  | Some markdownConfiguration \<Rightarrow>
                      (case styles markdownConfiguration of
                         StylesArray ss \<Rightarrow>
                           (Str (concat ss),
                            w1\<lparr>markdownConfigurationPaths :=
                                 map (\<lambda>style. paths_makePosixAbsolute sv (paths_normalize sv style)) ss\<rparr>)
                       | _ \<Rightarrow> (Undefined, w1))));
          w3 = w2\<lparr>markdownConfigurationThumbprint := newMarkdownConfigurationThumbprint\<rparr>
      in (oldMarkdownConfigurationThumbprint \<noteq> newMarkdownConfigurationThumbprint, w3))"

definition onConfigFileChange :: "services \<Rightarrow> language_configuration option \<Rightarrow> world \<Rightarrow> world" where
  "onConfigFileChange sv config w =
     (let (changed, w1) = readMarkdownConfiguration sv config w
      in if changed then snd (reloadMarkdownEditors True None w1) else w1)"

definition onFileChanges :: "services \<Rightarrow> file_change list \<Rightarrow> world \<Rightarrow> world" where
  "onFileChanges sv e w =
     (if markdownConfigurationPaths w \<noteq> [] then
        (let w1 = fold (\<lambda>p. emit (ToResource p)) (markdownConfigurationPaths w) w
         in if containsAny e (map (toResource sv) (markdownConfigurationPaths w)) UPDATED
            then snd (reloadMarkdownEditors True None w1)
            else w1)
      else w)"

definition onThemeChange :: "services \<Rightarrow> string option \<Rightarrow> world \<Rightarrow> world" where
  "onThemeChange sv themeId w = snd (reloadMarkdownEditors True None (configureMode sv themeId w))"

definition registerListeners :: "services \<Rightarrow> language_configuration option \<Rightarrow> world \<Rightarrow> world" where
  "registerListeners sv configuration w =
     (let w1 = (addListener (TopLevel FILE_CHANGES) w)
                 \<lparr>fileChangeListener := Some (TopLevel FILE_CHANGES)\<rparr>;
          w2 = (addListener (TopLevel UpdateConfiguration) w1)
                 \<lparr>configFileChangeListener := Some (TopLevel UpdateConfiguration)\<rparr>;
          w3 = (addListener (TopLevel EditorsChangedK) w2)
                 \<lparr>editorInputChangeListener := Some (TopLevel EditorsChangedK)\<rparr>;
          w4 = snd (readMarkdownConfiguration sv configuration (emit GetConfiguration w3));
          w5 = (addListener (TopLevel ThemeChange) w4)
                 \<lparr>themeChangeListener := Some (TopLevel ThemeChange)\<rparr>
      in w5)"

definition constructor ::
    "services \<Rightarrow> string option \<Rightarrow> language_configuration option \<Rightarrow> world \<Rightarrow> world" where
  "constructor sv theme configuration w =
     (let w1 = w\<lparr>markdownConfigurationPaths := [], hasModelListenerOnResourcePath := Map.empty\<rparr>;
          w2 = configureMode sv theme (emit GetTheme w1)
      in registerListeners sv configuration w2)"

definition dispose :: "world \<Rightarrow> world" where
  "dispose w =
     (let w1 = (case fileChangeListener w of
                  Some d \<Rightarrow> (dispose_one d w)\<lparr>fileChangeListener := None\<rparr>
                | None \<Rightarrow> w);
          w2 = (case configFileChangeListener w1 of
                  Some d \<Rightarrow> (dispose_one d w1)\<lparr>configFileChangeListener := None\<rparr>
                | None \<Rightarrow> w1);
          w3 = (case editorInputChangeListener w2 of
                  Some d \<Rightarrow> (dispose_one d w2)\<lparr>editorInputChangeListener := None\<rparr>
                | None \<Rightarrow> w2)
      in w3)"

subsection \<open>The per-document listener bundle\<close>

text \<open>
  \<open>unbind\<close>, the timer callback and the content-change callback are the three arrow
  functions created by one invocation of \<open>onEditorsChanged\<close>; \<open>c\<close> is the number of
  that invocation's closure.
\<close>

definition unbind :: "nat \<Rightarrow> world \<Rightarrow> world" where
  "unbind c w =
     (let w1 = dispose_all (cl_toUnbind (closures w c)) w;
          w2 = w1\<lparr>closures := (closures w1)(c := (closures w1 c)\<lparr>cl_toUnbind := []\<rparr>)\<rparr>
      in w2\<lparr>hasModelListenerOnResourcePath :=
              (hasModelListenerOnResourcePath w2)(cl_markdownResource (closures w2 c) \<mapsto> False)\<rparr>)"

definition onReloadTimeout :: "nat \<Rightarrow> world \<Rightarrow> world" where
  "onReloadTimeout c w =
     (let (didReload, w1) = reloadMarkdownEditors False (Some (cl_markdownResource (closures w c))) w
      in if \<not> didReload then unbind c w1 else w1)"

definition onDidChangeContent :: "nat \<Rightarrow> world \<Rightarrow> world" where
  "onDidChangeContent c w =
     (let w1 = (case reloadTimeout w of
                  None \<Rightarrow> w
                | Some h \<Rightarrow> if h \<noteq> 0 then clearTimeout h w else w);
          (h', w2) = setTimeout c RELOAD_MARKDOWN_DELAY w1
      in w2\<lparr>reloadTimeout := Some h'\<rparr>)"

definition push_toUnbind :: "nat \<Rightarrow> disposable \<Rightarrow> world \<Rightarrow> world" where
  "push_toUnbind c d w =
     (addListener d w)
       \<lparr>closures := (closures w)(c := (closures w c)\<lparr>cl_toUnbind := cl_toUnbind (closures w c) @ [d]\<rparr>)\<rparr>"

definition has_flag :: "(resource \<rightharpoonup> bool) \<Rightarrow> resource \<Rightarrow> bool" where
  "has_flag m r = (case m r of Some b \<Rightarrow> b | None \<Rightarrow> False)"

definition onEditorsChanged :: "world \<Rightarrow> world" where
  "onEditorsChanged w =
     (case activeEditorInput w of
        Some (MarkdownEditorInput i markdownResource) \<Rightarrow>
          if markdownResource \<in> set (models w)
             \<and> \<not> has_flag (hasModelListenerOnResourcePath w) markdownResource
          then
            (let c = next_closure w;
                 w1 = w\<lparr>next_closure := Suc c,
                        closures := (closures w)
                          (c := \<lparr>cl_markdownResource = markdownResource, cl_toUnbind = []\<rparr>)\<rparr>;
                 w2 = push_toUnbind c (ContentListener markdownResource c) w1;
                 w3 = w2\<lparr>hasModelListenerOnResourcePath :=
                           (hasModelListenerOnResourcePath w2)(markdownResource \<mapsto> True)\<rparr>;
                 w4 = push_toUnbind c (InputDisposeListener i c) w3
             in push_toUnbind c (ModelDisposeListener markdownResource c) w4)
          else w
      | _ \<Rightarrow> w)"

subsection \<open>Event dispatch\<close>

text \<open>
  The workbench delivers one event at a time and each handler runs to completion. An
  emitter calls the callbacks that are registered when it fires. \<open>Elapse d\<close> lets
  \<open>d\<close> milliseconds pass and runs the callbacks of the timers that have become due;
  \<open>HostUpdate\<close> is a change of the active input, the visible editors and the live models;
  \<open>TrackerDisposed\<close> is the workbench calling \<open>dispose\<close>.
\<close>

datatype event =
    EditorsChanged
  | ContentChanged resource
  | InputDisposed nat
  | ModelDisposed resource
  | Elapse nat
  | ConfigurationUpdated "language_configuration option"
  | ThemeChanged "string option"
  | FileChanges "file_change list"
  | HostUpdate "editor_input option" "editor list" "resource list"
  | TrackerDisposed

definition content_callback :: "resource \<Rightarrow> disposable \<Rightarrow> world \<Rightarrow> world" where
  "content_callback r d w =
     (case d of ContentListener r' c \<Rightarrow> if r' = r then onDidChangeContent c w else w | _ \<Rightarrow> w)"

definition input_dispose_callback :: "nat \<Rightarrow> disposable \<Rightarrow> world \<Rightarrow> world" where
  "input_dispose_callback i d w =
     (case d of InputDisposeListener i' c \<Rightarrow> if i' = i then unbind c w else w | _ \<Rightarrow> w)"

definition model_dispose_callback :: "resource \<Rightarrow> disposable \<Rightarrow> world \<Rightarrow> world" where
  "model_dispose_callback r d w =
     (case d of ModelDisposeListener r' c \<Rightarrow> if r' = r then unbind c w else w | _ \<Rightarrow> w)"

definition elapse :: "nat \<Rightarrow> world \<Rightarrow> world" where
  "elapse d w =
     (let w1 = w\<lparr>now := now w + d\<rparr>;
          due = filter (\<lambda>t. t_due t \<le> now w1) (timers w1);
          w2 = w1\<lparr>timers := filter (\<lambda>t. \<not> t_due t \<le> now w1) (timers w1)\<rparr>
      in fold (\<lambda>t. onReloadTimeout (t_closure t)) due w2)"

fun step :: "services \<Rightarrow> event \<Rightarrow> world \<Rightarrow> world" where
  "step sv EditorsChanged w =
     (if TopLevel EditorsChangedK \<in> set (listeners w) then onEditorsChanged w else w)"
| "step sv (ContentChanged r) w = fold (content_callback r) (listeners w) w"
| "step sv (InputDisposed i) w = fold (input_dispose_callback i) (listeners w) w"
| "step sv (ModelDisposed r) w =
     (let w1 = fold (model_dispose_callback r) (listeners w) w
      in w1\<lparr>models := removeAll r (models w1)\<rparr>)"
| "step sv (Elapse d) w = elapse d w"
| "step sv (ConfigurationUpdated config) w =
     (if TopLevel UpdateConfiguration \<in> set (listeners w) then onConfigFileChange sv config w else w)"
| "step sv (ThemeChanged themeId) w =
     (if TopLevel ThemeChange \<in> set (listeners w) then onThemeChange sv themeId w else w)"
| "step sv (FileChanges e) w =
     (if TopLevel FILE_CHANGES \<in> set (listeners w) then onFileChanges sv e w else w)"
| "step sv (HostUpdate a v m) w = w\<lparr>activeEditorInput := a, visibleEditors := v, models := m\<rparr>"
| "step sv TrackerDisposed w = dispose w"

definition run :: "services \<Rightarrow> event list \<Rightarrow> world \<Rightarrow> world" where
  "run sv evs w = fold (step sv) evs w"

text \<open>The workbench before the tracker is constructed: every field of the tracker is unset.\<close>

definition workbench :: "editor_input option \<Rightarrow> editor list \<Rightarrow> resource list \<Rightarrow> world" where
  "workbench a v m =
     \<lparr>fileChangeListener = None, configFileChangeListener = None, themeChangeListener = None,
      editorInputChangeListener = None, markdownConfigurationThumbprint = Undefined,
      markdownConfigurationPaths = [], reloadTimeout = None,
      hasModelListenerOnResourcePath = Map.empty,
      closures = (\<lambda>c. \<lparr>cl_markdownResource = [], cl_toUnbind = []\<rparr>), next_closure = 0,
      listeners = [], timers = [], next_timer = 1, now = 0,
      activeEditorInput = a, visibleEditors = v, models = m, trace = []\<rparr>"

subsection \<open>Notions for the statements\<close>

text \<open>
  What \<open>readMarkdownConfiguration\<close> computes from a configuration, read off lines 146
  to 154 of the source. \<open>style_list\<close> is the array under \<open>markdown.styles\<close> that passes
  the guards, if there is one. \<open>thumbprint_of_configuration\<close> is the value of the
  variable \<open>newMarkdownConfigurationThumbprint\<close>: the array's strings joined without a
  separator, and \<open>undefined\<close>, since the variable is never assigned, when no array passes
  the guards. \<open>style_paths\<close> is the list stored in \<open>markdownConfigurationPaths\<close>.
\<close>

definition style_list :: "language_configuration option \<Rightarrow> string list option" where
  "style_list config =
     (case config of
        None \<Rightarrow> None
      | Some lc \<Rightarrow>
          (case markdown lc of
             None \<Rightarrow> None
           | Some mc \<Rightarrow> (case styles mc of StylesArray ss \<Rightarrow> Some ss | _ \<Rightarrow> None)))"

definition thumbprint_of_configuration :: "language_configuration option \<Rightarrow> thumbprint" where
  "thumbprint_of_configuration config =
     (case style_list config of None \<Rightarrow> Undefined | Some ss \<Rightarrow> Str (concat ss))"

definition style_paths :: "services \<Rightarrow> language_configuration option \<Rightarrow> string list" where
  "style_paths sv config =
     (case style_list config of
        None \<Rightarrow> []
      | Some ss \<Rightarrow> map (\<lambda>style. paths_makePosixAbsolute sv (paths_normalize sv style)) ss)"

text \<open>
  The style list and the joined style-path list in the specification's words: when the
  configuration, the style-list field or an array value is absent, the style list is
  treated as empty; the joined list is the concatenation of the list's strings.
\<close>

definition spec_style_list :: "language_configuration option \<Rightarrow> string list" where
  "spec_style_list config =
     (case config of
        None \<Rightarrow> []
      | Some lc \<Rightarrow>
          (case markdown lc of
             None \<Rightarrow> []
           | Some mc \<Rightarrow> (case styles mc of StylesArray ss \<Rightarrow> ss | _ \<Rightarrow> [])))"

definition joined_style_list :: "language_configuration option \<Rightarrow> string" where
  "joined_style_list config = concat (spec_style_list config)"

text \<open>The calls \<open>editor.reload(clearIFrame)\<close> of one reload, in the order of the visible editors.\<close>

definition editor_reloads :: "bool \<Rightarrow> resource option \<Rightarrow> editor list \<Rightarrow> call list" where
  "editor_reloads clearIFrame res es =
     map (\<lambda>e. EditorReload (ed_id e) clearIFrame) (filter (is_reload_target res) es)"

fun is_editor_reload :: "call \<Rightarrow> bool" where
  "is_editor_reload (EditorReload e b) = True"
| "is_editor_reload _ = False"

text \<open>The calls of \<open>configureMode\<close>: one \<open>modeService.configureMode\<close> when the theme is set.\<close>

definition theme_calls :: "services \<Rightarrow> string option \<Rightarrow> call list" where
  "theme_calls sv theme =
     (case theme of
        None \<Rightarrow> []
      | Some t \<Rightarrow> if t \<noteq> [] then [ConfigureMode ''text/x-web-markdown'' (getBaseThemeId sv t)] else [])"

text \<open>
  The order of construction as the specification has it: no listener is registered before
  the configuration is read.
\<close>

fun registers_after_reading :: "call list \<Rightarrow> bool" where
  "registers_after_reading [] = True"
| "registers_after_reading (GetConfiguration # cs) = True"
| "registers_after_reading (AddListener d # cs) = False"
| "registers_after_reading (c # cs) = registers_after_reading cs"

text \<open>The invocations of \<open>reloadMarkdownEditors\<close> recorded in a trace.\<close>

fun is_reload_invocation :: "call \<Rightarrow> bool" where
  "is_reload_invocation (ReloadMarkdownEditors b r) = True"
| "is_reload_invocation _ = False"

definition reload_invocations :: "call list \<Rightarrow> call list" where
  "reload_invocations tr = filter is_reload_invocation tr"

text \<open>
  A burst of content changes of one document: a first change, and after each of the
  given gaps (in milliseconds) another one.
\<close>

primrec content_burst :: "resource \<Rightarrow> nat list \<Rightarrow> event list" where
  "content_burst r [] = [ContentChanged r]"
| "content_burst r (d # ds) = ContentChanged r # Elapse d # content_burst r ds"

fun is_content_listener :: "resource \<Rightarrow> disposable \<Rightarrow> bool" where
  "is_content_listener r (ContentListener r' c) = (r' = r)"
| "is_content_listener r d = False"

subsection \<open>Invariants\<close>

text \<open>
  At most one timer is pending, and \<open>reloadTimeout\<close> holds its handle. The closure of a
  registered content listener exists and holds the listener's resource.
\<close>

definition timer_inv :: "world \<Rightarrow> bool" where
  "timer_inv w =
     (length (timers w) \<le> 1 \<and> next_timer w \<noteq> 0
      \<and> (\<forall>t \<in> set (timers w). reloadTimeout w = Some (t_id t) \<and> t_id t \<noteq> 0))"

fun listener_closure_ok :: "world \<Rightarrow> disposable \<Rightarrow> bool" where
  "listener_closure_ok w (ContentListener r c) =
     (cl_markdownResource (closures w c) = r \<and> c < next_closure w)"
| "listener_closure_ok w d = True"

definition closure_inv :: "world \<Rightarrow> bool" where
  "closure_inv w = (\<forall>d \<in> set (listeners w). listener_closure_ok w d)"

text \<open>
  A registered content listener is among the registrations that the \<open>unbind\<close> of its
  bundle disposes.
\<close>

definition bundle_inv :: "world \<Rightarrow> bool" where
  "bundle_inv w =
     (\<forall>r c. ContentListener r c \<in> set (listeners w) \<longrightarrow>
        ContentListener r c \<in> set (cl_toUnbind (closures w c)))"

text \<open>
  Two ways a handler can leave the state: touching the timers and the trace only (and
  requesting no reload), or only dropping timers and listeners.
\<close>

definition same_but_timers :: "world \<Rightarrow> world \<Rightarrow> bool" where
  "same_but_timers w w' =
     (listeners w' = listeners w \<and> closures w' = closures w \<and> next_closure w' = next_closure w
      \<and> now w' = now w \<and> visibleEditors w' = visibleEditors w
      \<and> reload_invocations (trace w') = reload_invocations (trace w))"

definition shrinks :: "world \<Rightarrow> world \<Rightarrow> bool" where
  "shrinks w w' =
     (set (timers w') \<subseteq> set (timers w) \<and> length (timers w') \<le> length (timers w)
      \<and> reloadTimeout w' = reloadTimeout w \<and> next_timer w' = next_timer w
      \<and> set (listeners w') \<subseteq> set (listeners w)
      \<and> (\<forall>c. cl_markdownResource (closures w' c) = cl_markdownResource (closures w c))
      \<and> next_closure w' = next_closure w)"

subsection \<open>Sample inputs\<close>

definition sv0 :: services where
  "sv0 = \<lparr>paths_normalize = id, paths_makePosixAbsolute = (\<lambda>s. CHR ''/'' # s),
          toResource = (\<lambda>s. ''file://'' @ s), getBaseThemeId = id\<rparr>"

definition styles_config :: "string list \<Rightarrow> language_configuration option" where
  "styles_config ss = Some \<lparr>markdown = Some \<lparr>styles = StylesArray ss\<rparr>\<rparr>"

definition preview :: "nat \<Rightarrow> nat \<Rightarrow> resource \<Rightarrow> editor" where
  "preview e i r = \<lparr>ed_id = e, ed_input = MarkdownEditorInput i r, ed_iframe = True\<rparr>"

text \<open>
  A tracker constructed while one preview of \<open>a.md\<close> is active and visible, under the
  theme \<open>vs-dark\<close> and with the style list \<open>["a.css"]\<close>.
\<close>

definition tracker0 :: world where
  "tracker0 = constructor sv0 (Some ''vs-dark'') (styles_config [''a.css''])
     (workbench (Some (MarkdownEditorInput 1 ''a.md'')) [preview 7 1 ''a.md''] [''a.md''])"

text \<open>That tracker after a configuration change to the empty style array.\<close>

definition empty_styles0 :: world where
  "empty_styles0 = onConfigFileChange sv0 (styles_config []) tracker0"

text \<open>
  The tracker after the preview of \<open>a.md\<close> got its listener bundle, the document
  changed once, and the preview was closed while the timer is still pending.
\<close>

definition pending0 :: world where
  "pending0 = run sv0 [EditorsChanged, ContentChanged ''a.md'', HostUpdate None [] [''a.md'']] tracker0"

text \<open>The tracker after the preview of \<open>a.md\<close> got its listener bundle.\<close>

definition burst_start :: world where
  "burst_start = run sv0 [EditorsChanged] tracker0"

text \<open>
  The preview of \<open>a.md\<close> gets its listener bundle and the document changes, which
  starts the timer. After 100 ms the preview is closed (its input is disposed), after
  another 100 ms it is opened again, so that a second bundle is attached, and 50 ms later
  it is hidden behind another editor; 300 ms after the change the timer of the first
  bundle fires. After that the preview is shown again.
\<close>

definition stale_timer_fired :: "event list" where
  "stale_timer_fired =
     [EditorsChanged, ContentChanged ''a.md'', Elapse 100,
      HostUpdate None [] [''a.md''], InputDisposed 1, EditorsChanged, Elapse 100,
      HostUpdate (Some (MarkdownEditorInput 2 ''a.md'')) [preview 7 2 ''a.md''] [''a.md''],
      EditorsChanged, Elapse 50,
      HostUpdate (Some OtherInput) [] [''a.md''], EditorsChanged,
      Elapse 50]"

text \<open>The same run up to the moment, 250 ms after the change, before the timer fires.\<close>

definition stale_timer_due :: "event list" where
  "stale_timer_due =
     [EditorsChanged, ContentChanged ''a.md'', Elapse 100,
      HostUpdate None [] [''a.md''], InputDisposed 1, EditorsChanged, Elapse 100,
      HostUpdate (Some (MarkdownEditorInput 2 ''a.md'')) [preview 7 2 ''a.md''] [''a.md''],
      EditorsChanged, Elapse 50,
      HostUpdate (Some OtherInput) [] [''a.md''], EditorsChanged]"

definition preview_shown_again :: "event list" where
  "preview_shown_again =
     [HostUpdate (Some (MarkdownEditorInput 2 ''a.md'')) [preview 7 2 ''a.md''] [''a.md''],
      EditorsChanged]"

section \<open>Properties\<close>

subsection \<open>Reloading\<close>

lemma emit_simps:
  "trace (emit c w) = trace w @ [c]"
  "visibleEditors (emit c w) = visibleEditors w"
  "listeners (emit c w) = listeners w"
  "timers (emit c w) = timers w"
  "markdownConfigurationPaths (emit c w) = markdownConfigurationPaths w"
  "markdownConfigurationThumbprint (emit c w) = markdownConfigurationThumbprint w"
  by (simp_all add: emit_def)

lemma reloadLoop_eq:
  "reloadLoop c res es acc =
     (fst acc \<or> list_ex (is_reload_target res) es,
      (snd acc)\<lparr>trace := trace (snd acc) @ editor_reloads c res es\<rparr>)"
proof (induction es arbitrary: acc)
  case Nil
  show ?case by (simp add: editor_reloads_def)
next
  case (Cons e es)
  show ?case by (simp add: Cons.IH editor_reloads_def emit_def)
qed

lemma reloadMarkdownEditors_eq:
  "reloadMarkdownEditors c res w =
     (list_ex (is_reload_target res) (visibleEditors w),
      w\<lparr>trace := trace w @ ReloadMarkdownEditors c res # editor_reloads c res (visibleEditors w)\<rparr>)"
  by (simp add: reloadMarkdownEditors_def reloadLoop_eq emit_def)

lemma fold_emit_trace:
  "fold (\<lambda>p. emit (f p)) ps w = w\<lparr>trace := trace w @ map f ps\<rparr>"
  by (induction ps arbitrary: w) (simp_all add: emit_def)

lemma filter_editor_reloads [simp]:
  "filter (\<lambda>c. \<not> is_editor_reload c) (editor_reloads b res es) = []"
  by (induction es) (simp_all add: editor_reloads_def)

subsection \<open>Configuration changes\<close>

lemma readMarkdownConfiguration_eq:
  "readMarkdownConfiguration sv config w =
     (markdownConfigurationThumbprint w \<noteq> thumbprint_of_configuration config,
      w\<lparr>markdownConfigurationThumbprint := thumbprint_of_configuration config,
        markdownConfigurationPaths := style_paths sv config\<rparr>)"
  by (simp add: readMarkdownConfiguration_def thumbprint_of_configuration_def style_paths_def style_list_def
      split: option.split styles_value.split)

lemma onConfigFileChange_eq:
  "onConfigFileChange sv config w =
     w\<lparr>markdownConfigurationThumbprint := thumbprint_of_configuration config,
       markdownConfigurationPaths := style_paths sv config,
       trace := trace w @
         (if markdownConfigurationThumbprint w \<noteq> thumbprint_of_configuration config
          then ReloadMarkdownEditors True None # editor_reloads True None (visibleEditors w)
          else [])\<rparr>"
  by (simp add: onConfigFileChange_def readMarkdownConfiguration_eq reloadMarkdownEditors_eq)

lemma fold_onConfigFileChange_thumbprint:
  "markdownConfigurationThumbprint (fold (onConfigFileChange sv) configs w) =
     (if configs = [] then markdownConfigurationThumbprint w else thumbprint_of_configuration (last configs))"
  by (induction configs arbitrary: w) (simp_all add: onConfigFileChange_eq)

lemma fold_onConfigFileChange_visibleEditors:
  "visibleEditors (fold (onConfigFileChange sv) configs w) = visibleEditors w"
  by (induction configs arbitrary: w) (simp_all add: onConfigFileChange_eq)

text \<open>
  Two configurations have the same thumbprint exactly when both or neither have a style
  array and their joined style lists agree.
\<close>

lemma thumbprint_of_configuration_eq_iff:
  "thumbprint_of_configuration c1 = thumbprint_of_configuration c2 \<longleftrightarrow>
     (style_list c1 = None \<longleftrightarrow> style_list c2 = None) \<and> joined_style_list c1 = joined_style_list c2"
  by (auto simp: thumbprint_of_configuration_def joined_style_list_def spec_style_list_def
      style_list_def split: option.splits styles_value.splits)

text \<open>
  Claim C1, as stated, fails. After an event whose style list is the empty array, an
  event without a configuration has the same joined style-path list, the empty string,
  which is also the string that is stored; the stored style paths stay empty. Yet the
  handler reloads the previews: the thumbprint it computes for the new configuration is
  \<open>undefined\<close>, which differs from the stored empty string.
\<close>

theorem config_change_reloads_on_equal_joined_list_counterexample:
  "joined_style_list None = joined_style_list (styles_config [])
   \<and> markdownConfigurationThumbprint empty_styles0 = Str (joined_style_list None)
   \<and> markdownConfigurationPaths (onConfigFileChange sv0 None empty_styles0) =
       markdownConfigurationPaths empty_styles0
   \<and> trace (onConfigFileChange sv0 None empty_styles0) =
       trace empty_styles0 @ [ReloadMarkdownEditors True None, EditorReload 7 True]"
  by (simp add: empty_styles0_def onConfigFileChange_eq thumbprint_of_configuration_def
      style_list_def style_paths_def styles_config_def joined_style_list_def
      spec_style_list_def tracker0_def constructor_def registerListeners_def configureMode_def
      addListener_def emit_def readMarkdownConfiguration_eq workbench_def editor_reloads_def
      is_reload_target_def preview_def)

text \<open>
  Claim C1, amended. Let any sequence of configuration-change events be delivered to the
  tracker, and take the event at any position \<open>i\<close>. The thumbprint stored before it is
  the one of the event just before (the tracker's own for the first event). Handling the
  event invokes the full, unscoped reload, which reloads every visible markdown preview,
  if and only if the thumbprint of the new configuration differs from the stored one;
  otherwise it makes no call. The thumbprint of a configuration is its style strings
  joined without a separator when \<open>markdown.styles\<close> is an array, and \<open>undefined\<close> when
  the configuration, the \<open>markdown\<close> section or the array is missing. In both cases the
  new thumbprint and the new style paths are stored.
\<close>

theorem config_change_reloads_iff_fingerprint_differs:
  assumes "i < length configs"
  shows "let before = fold (onConfigFileChange sv) (take i configs) w;
             after = onConfigFileChange sv (configs ! i) before
         in markdownConfigurationThumbprint before =
              (if i = 0 then markdownConfigurationThumbprint w else thumbprint_of_configuration (configs ! (i - 1)))
          \<and> trace after = trace before @
              (if thumbprint_of_configuration (configs ! i) \<noteq> markdownConfigurationThumbprint before
               then ReloadMarkdownEditors True None # editor_reloads True None (visibleEditors before)
               else [])
          \<and> markdownConfigurationThumbprint after = thumbprint_of_configuration (configs ! i)
          \<and> markdownConfigurationPaths after = style_paths sv (configs ! i)"
proof -
  have stored: "markdownConfigurationThumbprint (fold (onConfigFileChange sv) (take i configs) w) =
           (if i = 0 then markdownConfigurationThumbprint w else thumbprint_of_configuration (configs ! (i - 1)))"
  proof (cases i)
    case 0
    then show ?thesis by simp
  next
    case (Suc j)
    with assms have "take i configs \<noteq> []" "last (take i configs) = configs ! j"
      by (auto simp: take_Suc_conv_app_nth)
    then show ?thesis
      by (simp add: fold_onConfigFileChange_thumbprint Suc)
  qed
  show ?thesis
    unfolding Let_def by (intro conjI stored) (simp_all add: onConfigFileChange_eq)
qed

theorem config_change_reloads_iff_fingerprint_differs_witness:
  "(1::nat) < length [styles_config [''a.css'', ''b.css''], styles_config [''a.css'', ''b.css'']]
   \<and> trace (onConfigFileChange sv0 (styles_config [''a.css'', ''b.css'']) tracker0) =
       trace tracker0 @ [ReloadMarkdownEditors True None, EditorReload 7 True]
   \<and> trace (fold (onConfigFileChange sv0)
        [styles_config [''a.css'', ''b.css''], styles_config [''a.css'', ''b.css'']] tracker0) =
       trace (onConfigFileChange sv0 (styles_config [''a.css'', ''b.css'']) tracker0)"
  using config_change_reloads_iff_fingerprint_differs
    [of 1 "[styles_config [''a.css'', ''b.css''], styles_config [''a.css'', ''b.css'']]" sv0 tracker0]
    config_change_reloads_iff_fingerprint_differs
    [of 0 "[styles_config [''a.css'', ''b.css''], styles_config [''a.css'', ''b.css'']]" sv0 tracker0]
  by (simp add: Let_def onConfigFileChange_eq thumbprint_of_configuration_def style_list_def styles_config_def
      tracker0_def constructor_def registerListeners_def configureMode_def addListener_def emit_def
      readMarkdownConfiguration_eq workbench_def editor_reloads_def is_reload_target_def preview_def
      style_paths_def sv0_def)

text \<open>
  Claim C9. When the configuration of a configuration-change event is absent, has no
  \<open>markdown\<close> section, or has a \<open>styles\<close> value that is missing or not an array, the
  stored style-path list is empty after the event (and the stored thumbprint is
  \<open>undefined\<close>). The handler reads a property only behind the test that its object is
  there, so it has no failing branch: it is a total function of the configuration and the
  state, and the state below is the one it returns.
\<close>

theorem invalid_configuration_gives_empty_style_list:
  assumes "config = None
     \<or> (\<exists>lc. config = Some lc \<and> markdown lc = None)
     \<or> (\<exists>lc mc. config = Some lc \<and> markdown lc = Some mc
            \<and> (styles mc = StylesUndefined \<or> styles mc = StylesNotArray))"
  shows "markdownConfigurationPaths (onConfigFileChange sv config w) = []
       \<and> markdownConfigurationThumbprint (onConfigFileChange sv config w) = Undefined"
proof -
  from assms have "style_list config = None"
    by (auto simp: style_list_def)
  then show ?thesis
    by (simp add: onConfigFileChange_eq style_paths_def thumbprint_of_configuration_def)
qed

theorem invalid_configuration_gives_empty_style_list_witness:
  "markdownConfigurationPaths tracker0 = [''/a.css'']
   \<and> markdownConfigurationPaths (onConfigFileChange sv0 None tracker0) = []
   \<and> markdownConfigurationPaths (onConfigFileChange sv0 (Some \<lparr>markdown = None\<rparr>) tracker0) = []
   \<and> markdownConfigurationPaths
        (onConfigFileChange sv0 (Some \<lparr>markdown = Some \<lparr>styles = StylesUndefined\<rparr>\<rparr>) tracker0) = []
   \<and> markdownConfigurationPaths
        (onConfigFileChange sv0 (Some \<lparr>markdown = Some \<lparr>styles = StylesNotArray\<rparr>\<rparr>) tracker0) = []"
  using invalid_configuration_gives_empty_style_list [of None sv0 tracker0]
    invalid_configuration_gives_empty_style_list [of "Some \<lparr>markdown = None\<rparr>" sv0 tracker0]
    invalid_configuration_gives_empty_style_list
      [of "Some \<lparr>markdown = Some \<lparr>styles = StylesUndefined\<rparr>\<rparr>" sv0 tracker0]
    invalid_configuration_gives_empty_style_list
      [of "Some \<lparr>markdown = Some \<lparr>styles = StylesNotArray\<rparr>\<rparr>" sv0 tracker0]
  by (simp add: tracker0_def constructor_def registerListeners_def configureMode_def
      addListener_def emit_def readMarkdownConfiguration_eq style_paths_def style_list_def
      styles_config_def sv0_def)

text \<open>
  Claim C10. The fingerprint joins the raw style strings without a separator. The lists
  \<open>["ab"]\<close> and \<open>["a", "b"]\<close>, and the lists \<open>["a"]\<close> and \<open>["a", ""]\<close>, have equal
  fingerprints: a configuration update that switches from the first list of a pair to the
  second makes no call at all, so nothing is reloaded, although the stored style list
  grows from one path to two.
\<close>

theorem joined_fingerprint_hides_style_changes:
  "(let w1 = onConfigFileChange sv (styles_config [''ab'']) w;
        w2 = onConfigFileChange sv (styles_config [''a'', ''b'']) w1
    in markdownConfigurationThumbprint w2 = markdownConfigurationThumbprint w1
     \<and> trace w2 = trace w1
     \<and> length (markdownConfigurationPaths w1) = 1
     \<and> length (markdownConfigurationPaths w2) = 2)
   \<and> (let w1 = onConfigFileChange sv (styles_config [''a'']) w;
          w2 = onConfigFileChange sv (styles_config [''a'', []]) w1
      in markdownConfigurationThumbprint w2 = markdownConfigurationThumbprint w1
       \<and> trace w2 = trace w1
       \<and> length (markdownConfigurationPaths w1) = 1
       \<and> length (markdownConfigurationPaths w2) = 2)"
  by (simp add: Let_def onConfigFileChange_eq thumbprint_of_configuration_def style_list_def style_paths_def
      styles_config_def)

theorem joined_fingerprint_hides_style_changes_witness:
  "markdownConfigurationPaths (onConfigFileChange sv0 (styles_config [''ab'']) tracker0) = [''/ab'']
   \<and> markdownConfigurationPaths
       (onConfigFileChange sv0 (styles_config [''a'', ''b''])
         (onConfigFileChange sv0 (styles_config [''ab'']) tracker0)) = [''/a'', ''/b'']
   \<and> trace (onConfigFileChange sv0 (styles_config [''a'', ''b''])
         (onConfigFileChange sv0 (styles_config [''ab'']) tracker0))
     = trace (onConfigFileChange sv0 (styles_config [''ab'']) tracker0)"
  using joined_fingerprint_hides_style_changes [of sv0 tracker0]
  by (simp add: Let_def onConfigFileChange_eq style_paths_def style_list_def styles_config_def
      sv0_def)

subsection \<open>File changes\<close>

lemma onFileChanges_eq:
  "onFileChanges sv e w =
     (if markdownConfigurationPaths w = [] then w
      else w\<lparr>trace := trace w @ map ToResource (markdownConfigurationPaths w) @
             (if containsAny e (map (toResource sv) (markdownConfigurationPaths w)) UPDATED
              then ReloadMarkdownEditors True None # editor_reloads True None (visibleEditors w)
              else [])\<rparr>)"
  by (simp add: onFileChanges_def fold_emit_trace reloadMarkdownEditors_eq Let_def)

text \<open>
  Claim C6. If the style-path list is not empty and the file-change event holds an
  \<open>UPDATED\<close> change for the resource that some configured style path resolves to, the
  handler resolves the style paths and then invokes the full, unscoped reload
  (\<open>clearIFrame = true\<close>), which reloads every visible markdown preview. If the
  style-path list is empty, the handler leaves the state and the trace as they are: it
  resolves no path and reloads nothing.
\<close>

theorem style_file_update_reloads_all_previews:
  "(markdownConfigurationPaths w \<noteq> [] \<and>
    (\<exists>p \<in> set (markdownConfigurationPaths w).
        \<lparr>fc_resource = toResource sv p, fc_type = UPDATED\<rparr> \<in> set e)
    \<longrightarrow> trace (onFileChanges sv e w) =
          trace w @ map ToResource (markdownConfigurationPaths w) @
          ReloadMarkdownEditors True None # editor_reloads True None (visibleEditors w))
   \<and> (markdownConfigurationPaths w = [] \<longrightarrow> onFileChanges sv e w = w)"
proof (intro conjI impI)
  assume a: "markdownConfigurationPaths w \<noteq> [] \<and>
    (\<exists>p \<in> set (markdownConfigurationPaths w).
        \<lparr>fc_resource = toResource sv p, fc_type = UPDATED\<rparr> \<in> set e)"
  then obtain p where p: "p \<in> set (markdownConfigurationPaths w)"
    "\<lparr>fc_resource = toResource sv p, fc_type = UPDATED\<rparr> \<in> set e"
    by blast
  have "containsAny e (map (toResource sv) (markdownConfigurationPaths w)) UPDATED"
    unfolding containsAny_def list_ex_iff
    by (rule bexI [OF _ p(2)]) (use p(1) in simp)
  with a show "trace (onFileChanges sv e w) =
          trace w @ map ToResource (markdownConfigurationPaths w) @
          ReloadMarkdownEditors True None # editor_reloads True None (visibleEditors w)"
    by (simp add: onFileChanges_eq)
next
  assume "markdownConfigurationPaths w = []"
  then show "onFileChanges sv e w = w"
    by (simp add: onFileChanges_eq)
qed

theorem style_file_update_reloads_all_previews_witness:
  "trace (onFileChanges sv0 [\<lparr>fc_resource = ''file:///a.css'', fc_type = UPDATED\<rparr>] tracker0) =
     trace tracker0 @ [ToResource ''/a.css'', ReloadMarkdownEditors True None, EditorReload 7 True]
   \<and> onFileChanges sv0 [\<lparr>fc_resource = ''file:///a.css'', fc_type = UPDATED\<rparr>]
        (onConfigFileChange sv0 (styles_config []) tracker0) =
      onConfigFileChange sv0 (styles_config []) tracker0"
  using style_file_update_reloads_all_previews
      [of tracker0 sv0 "[\<lparr>fc_resource = ''file:///a.css'', fc_type = UPDATED\<rparr>]"]
    style_file_update_reloads_all_previews
      [of "onConfigFileChange sv0 (styles_config []) tracker0" sv0
          "[\<lparr>fc_resource = ''file:///a.css'', fc_type = UPDATED\<rparr>]"]
  by (simp add: tracker0_def constructor_def registerListeners_def configureMode_def
      addListener_def emit_def readMarkdownConfiguration_eq style_paths_def style_list_def
      styles_config_def sv0_def onConfigFileChange_eq workbench_def editor_reloads_def
      is_reload_target_def preview_def)

subsection \<open>Theme changes\<close>

text \<open>
  Claim C7. A theme-change event that carries a theme identifier (a non-empty string)
  makes the tracker configure the mode \<open>text/x-web-markdown\<close> once, with the base theme
  of the identifier, and then invoke the full, unscoped reload once. The calls that follow
  are the reloads of the visible markdown previews; apart from them, the two calls are all
  the handler does, however many previews are open.
\<close>

theorem theme_change_reconfigures_once_and_reloads_once:
  assumes "themeId \<noteq> []"
  shows "trace (onThemeChange sv (Some themeId) w) =
           trace w @ [ConfigureMode ''text/x-web-markdown'' (getBaseThemeId sv themeId),
                      ReloadMarkdownEditors True None]
                   @ editor_reloads True None (visibleEditors w)
       \<and> filter (\<lambda>c. \<not> is_editor_reload c)
            (drop (length (trace w)) (trace (onThemeChange sv (Some themeId) w))) =
           [ConfigureMode ''text/x-web-markdown'' (getBaseThemeId sv themeId),
            ReloadMarkdownEditors True None]"
  using assms
  by (simp add: onThemeChange_def configureMode_def reloadMarkdownEditors_eq emit_def)

theorem theme_change_reconfigures_once_and_reloads_once_witness:
  "''dark'' \<noteq> [] \<and>
   trace (onThemeChange sv0 (Some ''dark'') tracker0) =
     trace tracker0 @ [ConfigureMode ''text/x-web-markdown'' ''dark'',
                       ReloadMarkdownEditors True None, EditorReload 7 True]"
  using theme_change_reconfigures_once_and_reloads_once [of "''dark''" sv0 tracker0]
  by (simp add: tracker0_def constructor_def registerListeners_def configureMode_def
      addListener_def emit_def readMarkdownConfiguration_eq sv0_def workbench_def
      editor_reloads_def is_reload_target_def preview_def)

text \<open>
  Without an identifier (\<open>undefined\<close> or the empty string) the guard of
  \<open>configureMode\<close> skips the reconfiguration, and only the reload is left.
\<close>

lemma theme_change_without_identifier:
  "trace (onThemeChange sv None w) =
     trace w @ ReloadMarkdownEditors True None # editor_reloads True None (visibleEditors w)"
  "trace (onThemeChange sv (Some []) w) =
     trace w @ ReloadMarkdownEditors True None # editor_reloads True None (visibleEditors w)"
  by (simp_all add: onThemeChange_def configureMode_def reloadMarkdownEditors_eq)

subsection \<open>Construction\<close>

lemma configureMode_eq:
  "configureMode sv theme w = w\<lparr>trace := trace w @ theme_calls sv theme\<rparr>"
  by (simp add: configureMode_def theme_calls_def emit_def split: option.split)

lemma constructor_eq:
  "constructor sv theme config w =
     w\<lparr>fileChangeListener := Some (TopLevel FILE_CHANGES),
       configFileChangeListener := Some (TopLevel UpdateConfiguration),
       themeChangeListener := Some (TopLevel ThemeChange),
       editorInputChangeListener := Some (TopLevel EditorsChangedK),
       markdownConfigurationThumbprint := thumbprint_of_configuration config,
       markdownConfigurationPaths := style_paths sv config,
       hasModelListenerOnResourcePath := Map.empty,
       listeners := listeners w @ [TopLevel FILE_CHANGES, TopLevel UpdateConfiguration,
                                   TopLevel EditorsChangedK, TopLevel ThemeChange],
       trace := trace w @ GetTheme # theme_calls sv theme @
                [AddListener (TopLevel FILE_CHANGES), AddListener (TopLevel UpdateConfiguration),
                 AddListener (TopLevel EditorsChangedK), GetConfiguration,
                 AddListener (TopLevel ThemeChange)]\<rparr>"
  by (simp add: constructor_def registerListeners_def configureMode_eq addListener_def emit_def
      readMarkdownConfiguration_eq Let_def)

text \<open>
  Claim C4, as stated, fails: three of the four listeners are registered before the
  configuration is read.
\<close>

theorem constructor_registers_before_reading_counterexample:
  "\<not> registers_after_reading
       (trace (constructor sv0 (Some ''vs-dark'') (styles_config [''a.css'']) (workbench None [] [])))"
  by (simp add: constructor_eq workbench_def theme_calls_def sv0_def)

text \<open>
  Claim C4, amended. On construction the tracker asks for the current theme and applies it
  to the preview rendering mode (when a theme is set), then registers the file-change,
  configuration-change and editor-set-change listeners, then reads the current style
  configuration into its snapshot, and last registers the theme-change listener. These are
  all the calls of the constructor: it dispatches no event and runs no handler, so the
  four listeners are registered and the baseline thumbprint and style paths are stored
  when the first event is handled.
\<close>

theorem constructor_call_order:
  "trace (constructor sv theme config w) =
     trace w @ GetTheme # theme_calls sv theme @
       [AddListener (TopLevel FILE_CHANGES), AddListener (TopLevel UpdateConfiguration),
        AddListener (TopLevel EditorsChangedK), GetConfiguration,
        AddListener (TopLevel ThemeChange)]
   \<and> listeners (constructor sv theme config w) =
       listeners w @ [TopLevel FILE_CHANGES, TopLevel UpdateConfiguration,
                      TopLevel EditorsChangedK, TopLevel ThemeChange]
   \<and> markdownConfigurationThumbprint (constructor sv theme config w) = thumbprint_of_configuration config
   \<and> markdownConfigurationPaths (constructor sv theme config w) = style_paths sv config"
  by (simp add: constructor_eq)

theorem constructor_call_order_witness:
  "trace tracker0 =
     [GetTheme, ConfigureMode ''text/x-web-markdown'' ''vs-dark'',
      AddListener (TopLevel FILE_CHANGES), AddListener (TopLevel UpdateConfiguration),
      AddListener (TopLevel EditorsChangedK), GetConfiguration,
      AddListener (TopLevel ThemeChange)]
   \<and> markdownConfigurationThumbprint tracker0 = Str ''a.css''
   \<and> markdownConfigurationPaths tracker0 = [''/a.css'']"
  using constructor_call_order [of sv0 "Some ''vs-dark''" "styles_config [''a.css'']"
      "workbench (Some (MarkdownEditorInput 1 ''a.md'')) [preview 7 1 ''a.md''] [''a.md'']"]
  by (simp add: tracker0_def workbench_def theme_calls_def sv0_def thumbprint_of_configuration_def style_list_def
      style_paths_def styles_config_def)

subsection \<open>Disposal\<close>

lemma dispose_idempotent: "dispose (dispose w) = dispose w"
  by (simp add: dispose_def Let_def dispose_one_def emit_def split: option.split)

text \<open>
  Claim C3. The claim asks that \<open>dispose\<close> release all four top-level registrations.
  The method releases three of them; \<open>themeChangeListener\<close> is stored by
  \<open>registerListeners\<close> and never disposed. After \<open>dispose\<close> on a freshly constructed
  tracker the theme-change registration is the one left, the field still holds it, and a
  later theme change still reconfigures the mode and reloads the previews.
\<close>

theorem dispose_keeps_theme_listener:
  "listeners (dispose tracker0) = [TopLevel ThemeChange]
   \<and> themeChangeListener (dispose tracker0) = Some (TopLevel ThemeChange)
   \<and> trace (step sv0 (ThemeChanged (Some ''hc-black'')) (dispose tracker0)) =
       trace (dispose tracker0) @
       [ConfigureMode ''text/x-web-markdown'' ''hc-black'', ReloadMarkdownEditors True None,
        EditorReload 7 True]"
  by (simp add: tracker0_def constructor_eq dispose_def dispose_one_def emit_def workbench_def
      Let_def onThemeChange_def configureMode_eq theme_calls_def reloadMarkdownEditors_eq
      editor_reloads_def is_reload_target_def preview_def sv0_def)

lemma dispose_constructed:
  "listeners (dispose (constructor sv theme config (workbench a v m))) = [TopLevel ThemeChange]"
  by (simp add: constructor_eq dispose_def dispose_one_def emit_def workbench_def Let_def)

subsection \<open>The listener bundle of a document\<close>

lemma dispose_one_eq:
  "dispose_one d w = w\<lparr>listeners := filter (\<lambda>x. x \<noteq> d) (listeners w), trace := trace w @ [Dispose d]\<rparr>"
proof -
  have "removeAll d xs = filter (\<lambda>x. x \<noteq> d) xs" for xs
    by (induction xs) auto
  then show ?thesis
    by (simp add: dispose_one_def emit_def)
qed

lemma dispose_all_eq:
  "dispose_all ds w =
     w\<lparr>listeners := filter (\<lambda>x. x \<notin> set ds) (listeners w), trace := trace w @ map Dispose ds\<rparr>"
proof (induction ds arbitrary: w)
  case Nil
  show ?case by (simp add: dispose_all_def)
next
  case (Cons d ds)
  have "dispose_all (d # ds) w = dispose_all ds (dispose_one d w)"
    by (simp add: dispose_all_def)
  also have "\<dots> = w\<lparr>listeners := filter (\<lambda>x. x \<notin> set (d # ds)) (listeners w),
                     trace := trace w @ map Dispose (d # ds)\<rparr>"
    by (simp add: Cons.IH dispose_one_eq)
  finally show ?case .
qed

lemma unbind_eq:
  "unbind c w =
     w\<lparr>listeners := filter (\<lambda>x. x \<notin> set (cl_toUnbind (closures w c))) (listeners w),
       trace := trace w @ map Dispose (cl_toUnbind (closures w c)),
       closures := (closures w)(c := (closures w c)\<lparr>cl_toUnbind := []\<rparr>),
       hasModelListenerOnResourcePath :=
         (hasModelListenerOnResourcePath w)(cl_markdownResource (closures w c) \<mapsto> False)\<rparr>"
  by (simp add: unbind_def dispose_all_eq Let_def)

lemma onReloadTimeout_eq:
  "onReloadTimeout c w =
     (let r = cl_markdownResource (closures w c);
          w1 = w\<lparr>trace := trace w @ ReloadMarkdownEditors False (Some r)
                     # editor_reloads False (Some r) (visibleEditors w)\<rparr>
      in if list_ex (is_reload_target (Some r)) (visibleEditors w) then w1 else unbind c w1)"
  by (simp add: onReloadTimeout_def reloadMarkdownEditors_eq Let_def)

lemma elapse_single_due:
  assumes "timers w = [t]" "t_due t \<le> now w + d"
  shows "elapse d w = onReloadTimeout (t_closure t) (w\<lparr>now := now w + d, timers := []\<rparr>)"
  using assms by (simp add: elapse_def Let_def)

lemma elapse_single_not_due:
  assumes "timers w = [t]" "now w + d < t_due t"
  shows "elapse d w = w\<lparr>now := now w + d\<rparr>"
  using assms by (simp add: elapse_def Let_def)

lemma editor_reloads_none:
  "\<not> list_ex (is_reload_target res) es \<Longrightarrow> editor_reloads b res es = []"
  by (induction es) (simp_all add: editor_reloads_def)

subsection \<open>Invariants of the reachable states\<close>

lemma shrinks_refl: "shrinks w w"
  by (simp add: shrinks_def)

lemma shrinks_trans: "shrinks w w1 \<Longrightarrow> shrinks w1 w2 \<Longrightarrow> shrinks w w2"
  unfolding shrinks_def by (intro conjI) (auto dest: order_trans)

lemma shrinks_fold:
  assumes "\<And>x w. shrinks w (f x w)"
  shows "shrinks w (fold f xs w)"
proof (induction xs arbitrary: w)
  case Nil
  show ?case by (simp add: shrinks_refl)
next
  case (Cons x xs)
  show ?case
    using shrinks_trans [OF assms Cons.IH] by simp
qed

lemma timer_inv_shrinks: "timer_inv w \<Longrightarrow> shrinks w w' \<Longrightarrow> timer_inv w'"
  unfolding timer_inv_def shrinks_def by auto

lemma closure_inv_shrinks:
  assumes "closure_inv w" "shrinks w w'"
  shows "closure_inv w'"
  unfolding closure_inv_def
proof
  fix d assume "d \<in> set (listeners w')"
  with assms have "listener_closure_ok w d"
    by (auto simp: closure_inv_def shrinks_def)
  with assms(2) show "listener_closure_ok w' d"
    by (cases d) (simp_all add: shrinks_def)
qed

lemma shrinks_unbind: "shrinks w (unbind c w)"
  by (simp add: shrinks_def unbind_eq)

lemma shrinks_trace: "shrinks w (w\<lparr>trace := tr\<rparr>)"
  by (simp add: shrinks_def)

lemma shrinks_onReloadTimeout: "shrinks w (onReloadTimeout c w)"
  unfolding onReloadTimeout_eq Let_def
  using shrinks_trans [OF shrinks_trace shrinks_unbind] by (simp add: shrinks_trace)

lemma shrinks_elapse: "shrinks w (elapse d w)"
proof -
  have "shrinks w (w\<lparr>now := now w + d,
      timers := filter (\<lambda>t. \<not> t_due t \<le> now w + d) (timers w)\<rparr>)"
    by (simp add: shrinks_def)
  then show ?thesis
    unfolding elapse_def Let_def
    by (simp add: shrinks_trans [OF _ shrinks_fold [of "\<lambda>t. onReloadTimeout (t_closure t)"]]
        shrinks_onReloadTimeout)
qed

lemma onThemeChange_eq:
  "onThemeChange sv themeId w =
     w\<lparr>trace := trace w @ theme_calls sv themeId
        @ ReloadMarkdownEditors True None # editor_reloads True None (visibleEditors w)\<rparr>"
  by (simp add: onThemeChange_def configureMode_eq reloadMarkdownEditors_eq)

lemma shrinks_dispose: "shrinks w (dispose w)"
  by (auto simp: shrinks_def dispose_def dispose_one_eq Let_def split: option.split)

lemma shrinks_input_dispose_callback: "shrinks w (input_dispose_callback i d w)"
  by (cases d) (simp_all add: input_dispose_callback_def shrinks_refl shrinks_unbind)

lemma shrinks_model_dispose_callback: "shrinks w (model_dispose_callback r d w)"
  by (cases d) (simp_all add: model_dispose_callback_def shrinks_refl shrinks_unbind)

lemma onEditorsChanged_attach:
  assumes "activeEditorInput w = Some (MarkdownEditorInput i r)" "r \<in> set (models w)"
    "\<not> has_flag (hasModelListenerOnResourcePath w) r"
  shows "onEditorsChanged w =
     w\<lparr>next_closure := Suc (next_closure w),
       closures := (closures w)(next_closure w :=
         \<lparr>cl_markdownResource = r,
          cl_toUnbind = [ContentListener r (next_closure w), InputDisposeListener i (next_closure w),
                        ModelDisposeListener r (next_closure w)]\<rparr>),
       listeners := listeners w @
         [ContentListener r (next_closure w), InputDisposeListener i (next_closure w),
          ModelDisposeListener r (next_closure w)],
       hasModelListenerOnResourcePath := (hasModelListenerOnResourcePath w)(r \<mapsto> True),
       trace := trace w @
         [AddListener (ContentListener r (next_closure w)),
          AddListener (InputDisposeListener i (next_closure w)),
          AddListener (ModelDisposeListener r (next_closure w))]\<rparr>"
  using assms
  by (simp add: onEditorsChanged_def push_toUnbind_def addListener_def emit_def Let_def)

lemma onEditorsChanged_noop:
  assumes "\<not> (\<exists>i r. activeEditorInput w = Some (MarkdownEditorInput i r) \<and> r \<in> set (models w)
              \<and> \<not> has_flag (hasModelListenerOnResourcePath w) r)"
  shows "onEditorsChanged w = w"
  using assms by (auto simp: onEditorsChanged_def split: option.split editor_input.split)

lemma inv_onEditorsChanged:
  assumes "timer_inv w" "closure_inv w"
  shows "timer_inv (onEditorsChanged w) \<and> closure_inv (onEditorsChanged w)"
proof (cases "\<exists>i r. activeEditorInput w = Some (MarkdownEditorInput i r) \<and> r \<in> set (models w)
              \<and> \<not> has_flag (hasModelListenerOnResourcePath w) r")
  case False
  then show ?thesis using assms by (simp add: onEditorsChanged_noop)
next
  case True
  then obtain i r where a: "activeEditorInput w = Some (MarkdownEditorInput i r)"
    "r \<in> set (models w)" "\<not> has_flag (hasModelListenerOnResourcePath w) r"
    by blast
  have t: "timer_inv (onEditorsChanged w)"
    using assms(1) by (simp add: onEditorsChanged_attach [OF a] timer_inv_def)
  have "listener_closure_ok (onEditorsChanged w) d"
    if "d \<in> set (listeners w)" for d
  proof -
    from that assms(2) have "listener_closure_ok w d"
      by (simp add: closure_inv_def)
    then show ?thesis
      by (cases d) (auto simp add: onEditorsChanged_attach [OF a])
  qed
  then have "closure_inv (onEditorsChanged w)"
    unfolding closure_inv_def
    by (auto simp add: onEditorsChanged_attach [OF a])
  with t show ?thesis by simp
qed

lemma reload_invocations_append [simp]:
  "reload_invocations (xs @ ys) = reload_invocations xs @ reload_invocations ys"
  by (simp add: reload_invocations_def)

lemma reload_invocations_editor_reloads [simp]:
  "reload_invocations (editor_reloads b res es) = []"
  by (induction es) (simp_all add: editor_reloads_def reload_invocations_def)

lemma reload_invocations_Dispose [simp]:
  "reload_invocations (map Dispose ds) = []"
  by (induction ds) (simp_all add: reload_invocations_def)

lemma reload_invocations_Cons [simp]:
  "reload_invocations (c # cs) = (if is_reload_invocation c then c # reload_invocations cs else reload_invocations cs)"
  "reload_invocations [] = []"
  by (simp_all add: reload_invocations_def)

lemma onDidChangeContent_timer_inv:
  assumes "timer_inv w"
  shows "timers (onDidChangeContent c w) =
           [\<lparr>t_id = next_timer w, t_due = now w + 300, t_closure = c\<rparr>]
       \<and> timer_inv (onDidChangeContent c w)
       \<and> same_but_timers w (onDidChangeContent c w)"
proof (cases "timers w")
  case Nil
  then show ?thesis
    using assms
    by (simp add: onDidChangeContent_def setTimeout_def clearTimeout_def emit_def Let_def
        RELOAD_MARKDOWN_DELAY_def timer_inv_def same_but_timers_def reload_invocations_def
        split: option.split)
next
  case (Cons t ts)
  with assms have ts: "ts = []" and t: "reloadTimeout w = Some (t_id t)" "t_id t \<noteq> 0"
    by (simp_all add: timer_inv_def)
  show ?thesis
    using assms Cons ts t
    by (simp add: onDidChangeContent_def setTimeout_def clearTimeout_def emit_def Let_def
        RELOAD_MARKDOWN_DELAY_def timer_inv_def same_but_timers_def reload_invocations_def)
qed

lemma same_but_timers_refl: "same_but_timers w w"
  by (simp add: same_but_timers_def)

lemma same_but_timers_trans:
  "same_but_timers w w1 \<Longrightarrow> same_but_timers w1 w2 \<Longrightarrow> same_but_timers w w2"
  by (simp add: same_but_timers_def)

lemma fold_content_callback:
  assumes "timer_inv w"
  shows "timer_inv (fold (content_callback r) ls w)
       \<and> same_but_timers w (fold (content_callback r) ls w)
       \<and> ((\<exists>c. ContentListener r c \<in> set ls) \<longrightarrow>
            (\<exists>c. ContentListener r c \<in> set ls
                \<and> timers (fold (content_callback r) ls w) =
                    [\<lparr>t_id = next_timer (fold (content_callback r) ls w) - 1,
                      t_due = now w + 300, t_closure = c\<rparr>]))"
proof (induction ls rule: rev_induct)
  case Nil
  show ?case using assms by (simp add: same_but_timers_refl)
next
  case (snoc x xs)
  let ?m = "fold (content_callback r) xs w"
  have m: "timer_inv ?m" "same_but_timers w ?m"
    using snoc by simp_all
  show ?case
  proof (cases "\<exists>c. x = ContentListener r c")
    case True
    then obtain c where x: "x = ContentListener r c" by blast
    have f: "fold (content_callback r) (xs @ [x]) w = onDidChangeContent c ?m"
      by (simp add: x content_callback_def)
    have n: "now ?m = now w"
      using m(2) by (simp add: same_but_timers_def)
    have s: "next_timer (onDidChangeContent c ?m) = Suc (next_timer ?m)"
      by (simp add: onDidChangeContent_def setTimeout_def clearTimeout_def emit_def Let_def
          split: option.split)
    show ?thesis
      unfolding f
      using onDidChangeContent_timer_inv [OF m(1), of c] m(2)
      by (auto simp: x n s intro: same_but_timers_trans)
  next
    case False
    then have f: "fold (content_callback r) (xs @ [x]) w = ?m"
      by (cases x) (auto simp: content_callback_def)
    from False have "(\<exists>c. ContentListener r c \<in> set (xs @ [x])) = (\<exists>c. ContentListener r c \<in> set xs)"
      by auto
    then show ?thesis
      unfolding f using snoc by auto
  qed
qed

lemma onReloadTimeout_reload_invocations:
  "reload_invocations (trace (onReloadTimeout c w)) =
     reload_invocations (trace w)
       @ [ReloadMarkdownEditors False (Some (cl_markdownResource (closures w c)))]"
  by (simp add: onReloadTimeout_eq Let_def unbind_eq)

lemma run_append: "run sv (xs @ ys) w = run sv ys (run sv xs w)"
  by (simp add: run_def)

lemma same_but_timers_closure_inv:
  assumes "closure_inv w" "same_but_timers w w'"
  shows "closure_inv w'"
proof -
  have "listener_closure_ok w' x" if "listener_closure_ok w x" for x
    using that assms(2) by (cases x) (simp_all add: same_but_timers_def)
  then show ?thesis
    using assms by (simp add: closure_inv_def same_but_timers_def)
qed

lemma shrinks_step:
  assumes "e \<noteq> EditorsChanged" "\<And>r. e \<noteq> ContentChanged r"
  shows "shrinks w (step sv e w)"
proof (cases e)
  case (InputDisposed i)
  then show ?thesis
    by (simp add: shrinks_fold shrinks_input_dispose_callback)
next
  case (ModelDisposed r)
  let ?w1 = "fold (model_dispose_callback r) (listeners w) w"
  have "shrinks w ?w1"
    by (simp add: shrinks_fold shrinks_model_dispose_callback)
  moreover have "shrinks ?w1 (?w1\<lparr>models := removeAll r (models ?w1)\<rparr>)"
    by (simp add: shrinks_def)
  ultimately show ?thesis
    unfolding ModelDisposed by (simp add: Let_def) (rule shrinks_trans)
next
  case (Elapse d)
  then show ?thesis by (simp add: shrinks_elapse)
next
  case (ConfigurationUpdated config)
  then show ?thesis by (simp add: onConfigFileChange_eq shrinks_def)
next
  case (ThemeChanged themeId)
  then show ?thesis by (simp add: onThemeChange_eq shrinks_def)
next
  case (FileChanges fe)
  then show ?thesis by (simp add: onFileChanges_eq shrinks_def)
next
  case (HostUpdate a v m)
  then show ?thesis by (simp add: shrinks_def)
next
  case TrackerDisposed
  then show ?thesis by (simp add: shrinks_dispose)
qed (use assms in simp_all)

lemma inv_step:
  assumes "timer_inv w" "closure_inv w"
  shows "timer_inv (step sv e w) \<and> closure_inv (step sv e w)"
proof (cases "e = EditorsChanged \<or> (\<exists>r. e = ContentChanged r)")
  case False
  then have "shrinks w (step sv e w)"
    by (intro shrinks_step) auto
  with assms show ?thesis
    by (simp add: timer_inv_shrinks closure_inv_shrinks)
next
  case True
  then show ?thesis
  proof
    assume "e = EditorsChanged"
    then show ?thesis
      using assms inv_onEditorsChanged [OF assms] by simp
  next
    assume "\<exists>r. e = ContentChanged r"
    then obtain r where "e = ContentChanged r" by blast
    then show ?thesis
      using fold_content_callback [OF assms(1), of r "listeners w"] assms(2)
      by (simp add: same_but_timers_closure_inv)
  qed
qed

lemma inv_run:
  assumes "timer_inv w" "closure_inv w"
  shows "timer_inv (run sv evs w) \<and> closure_inv (run sv evs w)"
  using assms
proof (induction evs arbitrary: w)
  case Nil
  then show ?case by (simp add: run_def)
next
  case (Cons e evs)
  from inv_step [OF Cons.prems, of sv e] Cons.IH [of "step sv e w"]
  show ?case by (simp add: run_def)
qed

lemma inv_constructor:
  "timer_inv (constructor sv theme config (workbench a v m))
   \<and> closure_inv (constructor sv theme config (workbench a v m))"
  by (simp add: constructor_eq workbench_def timer_inv_def closure_inv_def)

lemma burst_lemma:
  assumes "timer_inv w" "closure_inv w" "ContentListener r c \<in> set (listeners w)"
    "\<forall>d \<in> set ds. d < 300"
  shows "\<exists>t. timers (run sv (content_burst r ds) w) = [t]
           \<and> t_due t = now (run sv (content_burst r ds) w) + 300
           \<and> cl_markdownResource (closures (run sv (content_burst r ds) w) (t_closure t)) = r
           \<and> reload_invocations (trace (run sv (content_burst r ds) w)) =
               reload_invocations (trace w)"
  using assms
proof (induction ds arbitrary: w)
  case Nil
  let ?w' = "fold (content_callback r) (listeners w) w"
  from fold_content_callback [OF Nil(1), of r "listeners w"] Nil(3)
  obtain c' where c': "ContentListener r c' \<in> set (listeners w)"
      "timers ?w' = [\<lparr>t_id = next_timer ?w' - 1, t_due = now w + 300, t_closure = c'\<rparr>]"
      "same_but_timers w ?w'"
    by blast
  from c'(1) Nil(2) have "cl_markdownResource (closures w c') = r"
    by (auto simp: closure_inv_def)
  with c' show ?case
    by (simp add: run_def same_but_timers_def)
next
  case (Cons d ds)
  let ?w1 = "fold (content_callback r) (listeners w) w"
  from fold_content_callback [OF Cons.prems(1), of r "listeners w"] Cons.prems(3)
  obtain c' where c': "ContentListener r c' \<in> set (listeners w)"
      "timers ?w1 = [\<lparr>t_id = next_timer ?w1 - 1, t_due = now w + 300, t_closure = c'\<rparr>]"
      "same_but_timers w ?w1" "timer_inv ?w1"
    by blast
  have d: "d < 300" using Cons.prems(4) by simp
  let ?w2 = "?w1\<lparr>now := now ?w1 + d\<rparr>"
  have e: "elapse d ?w1 = ?w2"
  proof (rule elapse_single_not_due [OF c'(2)])
    have "now ?w1 = now w" using c'(3) by (simp add: same_but_timers_def)
    with d show "now ?w1 + d < t_due \<lparr>t_id = next_timer ?w1 - 1, t_due = now w + 300, t_closure = c'\<rparr>"
      by simp
  qed
  have r: "run sv (content_burst r (d # ds)) w = run sv (content_burst r ds) ?w2"
    by (simp add: run_def e)
  have i1: "timer_inv ?w2"
    using c'(4) by (simp add: timer_inv_def)
  have i2: "closure_inv ?w2"
  proof -
    have "listener_closure_ok ?w2 x" if "listener_closure_ok w x" for x
      using that c'(3) by (cases x) (simp_all add: same_but_timers_def)
    then show ?thesis
      using Cons.prems(2) c'(3) by (simp add: closure_inv_def same_but_timers_def)
  qed
  have i3: "ContentListener r c \<in> set (listeners ?w2)"
    using Cons.prems(3) c'(3) by (simp add: same_but_timers_def)
  have i4: "\<forall>d \<in> set ds. d < 300"
    using Cons.prems(4) by simp
  have t: "reload_invocations (trace ?w2) = reload_invocations (trace w)"
    using c'(3) by (simp add: same_but_timers_def)
  from Cons.IH [OF i1 i2 i3 i4] obtain t' where t':
      "timers (run sv (content_burst r ds) ?w2) = [t']"
      "t_due t' = now (run sv (content_burst r ds) ?w2) + 300"
      "cl_markdownResource (closures (run sv (content_burst r ds) ?w2) (t_closure t')) = r"
      "reload_invocations (trace (run sv (content_burst r ds) ?w2)) = reload_invocations (trace ?w2)"
    by blast
  from t'(4) t have "reload_invocations (trace (run sv (content_burst r ds) ?w2)) =
      reload_invocations (trace w)"
    by (rule trans)
  with t'(1,2,3) show ?case
    unfolding r by blast
qed

lemma bundle_inv_subset:
  assumes "bundle_inv w" "set (listeners w') \<subseteq> set (listeners w)" "closures w' = closures w"
  shows "bundle_inv w'"
  using assms unfolding bundle_inv_def by auto

lemma bundle_inv_unbind:
  assumes "bundle_inv w"
  shows "bundle_inv (unbind c w)"
  using assms unfolding bundle_inv_def unbind_eq by auto

lemma bundle_inv_onReloadTimeout:
  assumes "bundle_inv w"
  shows "bundle_inv (onReloadTimeout c w)"
proof -
  have "bundle_inv (w\<lparr>trace := tr\<rparr>)" for tr
    using assms by (rule bundle_inv_subset) simp_all
  then show ?thesis
    unfolding onReloadTimeout_eq Let_def by (simp add: bundle_inv_unbind)
qed

lemma fold_preserves:
  assumes "\<And>x w. P w \<Longrightarrow> P (f x w)" "P w"
  shows "P (fold f xs w)"
  using assms(2) by (induction xs arbitrary: w) (simp_all add: assms(1))

lemma bundle_inv_elapse:
  assumes "bundle_inv w"
  shows "bundle_inv (elapse d w)"
proof -
  have "bundle_inv (w\<lparr>now := now w + d,
      timers := filter (\<lambda>t. \<not> t_due t \<le> now w + d) (timers w)\<rparr>)"
    using assms by (rule bundle_inv_subset) simp_all
  then show ?thesis
    unfolding elapse_def Let_def
    by (intro fold_preserves [where P = bundle_inv]) (simp_all add: bundle_inv_onReloadTimeout)
qed

lemma content_callback_frame:
  "listeners (content_callback r d w) = listeners w
   \<and> closures (content_callback r d w) = closures w"
  by (cases d)
     (simp_all add: content_callback_def onDidChangeContent_def setTimeout_def clearTimeout_def
        emit_def Let_def split: option.split)

lemma fold_content_callback_frame:
  "listeners (fold (content_callback r) ds w) = listeners w
   \<and> closures (fold (content_callback r) ds w) = closures w"
  by (induction ds arbitrary: w) (simp_all add: content_callback_frame)

lemma bundle_inv_onEditorsChanged:
  assumes "closure_inv w" "bundle_inv w"
  shows "bundle_inv (onEditorsChanged w)"
proof (cases "\<exists>i r. activeEditorInput w = Some (MarkdownEditorInput i r) \<and> r \<in> set (models w)
              \<and> \<not> has_flag (hasModelListenerOnResourcePath w) r")
  case False
  then show ?thesis using assms by (simp add: onEditorsChanged_noop)
next
  case True
  then obtain i r where a: "activeEditorInput w = Some (MarkdownEditorInput i r)"
    "r \<in> set (models w)" "\<not> has_flag (hasModelListenerOnResourcePath w) r"
    by blast
  have old: "c < next_closure w" if "ContentListener r' c \<in> set (listeners w)" for r' c
    using assms(1) that unfolding closure_inv_def by fastforce
  show ?thesis
    using assms(2) old unfolding bundle_inv_def onEditorsChanged_attach [OF a]
    by auto
qed

lemma bundle_inv_step:
  assumes "closure_inv w" "bundle_inv w"
  shows "bundle_inv (step sv e w)"
proof (cases e)
  case EditorsChanged
  then show ?thesis using assms by (simp add: bundle_inv_onEditorsChanged)
next
  case (ContentChanged r)
  then show ?thesis
    using assms(2) fold_content_callback_frame [of r "listeners w" w]
    by (simp add: bundle_inv_def)
next
  case (InputDisposed i)
  have "bundle_inv (input_dispose_callback i d w')" if "bundle_inv w'" for d w'
    using that by (cases d) (simp_all add: input_dispose_callback_def bundle_inv_unbind)
  then show ?thesis
    unfolding InputDisposed using assms(2)
    by (simp add: fold_preserves [where P = bundle_inv])
next
  case (ModelDisposed r)
  have "bundle_inv (model_dispose_callback r d w')" if "bundle_inv w'" for d w'
    using that by (cases d) (simp_all add: model_dispose_callback_def bundle_inv_unbind)
  then have "bundle_inv (fold (model_dispose_callback r) (listeners w) w)"
    using assms(2) by (simp add: fold_preserves [where P = bundle_inv])
  then show ?thesis
    unfolding ModelDisposed by (simp add: Let_def bundle_inv_def)
next
  case (Elapse d)
  then show ?thesis using assms(2) by (simp add: bundle_inv_elapse)
next
  case (ConfigurationUpdated config)
  then show ?thesis using assms(2) by (simp add: onConfigFileChange_eq bundle_inv_def)
next
  case (ThemeChanged themeId)
  then show ?thesis using assms(2) by (simp add: onThemeChange_eq bundle_inv_def)
next
  case (FileChanges fe)
  then show ?thesis using assms(2) by (simp add: onFileChanges_eq bundle_inv_def)
next
  case (HostUpdate a v m)
  then show ?thesis using assms(2) by (simp add: bundle_inv_def)
next
  case TrackerDisposed
  have "closures (dispose w) = closures w"
    by (simp add: dispose_def dispose_one_eq Let_def split: option.split)
  moreover have "set (listeners (dispose w)) \<subseteq> set (listeners w)"
    using shrinks_dispose [of w] by (simp add: shrinks_def)
  ultimately show ?thesis
    unfolding TrackerDisposed using assms(2) by (simp add: bundle_inv_subset)
qed

lemma bundle_inv_run:
  assumes "timer_inv w" "closure_inv w" "bundle_inv w"
  shows "bundle_inv (run sv evs w)"
  using assms
proof (induction evs arbitrary: w)
  case Nil
  then show ?case by (simp add: run_def)
next
  case (Cons e evs)
  from inv_step [OF Cons.prems(1,2), of sv e] bundle_inv_step [OF Cons.prems(2,3), of sv e]
    Cons.IH [of "step sv e w"]
  show ?case by (simp add: run_def)
qed

lemma bundle_inv_constructor:
  "bundle_inv (constructor sv theme config (workbench a v m))"
  by (simp add: constructor_eq workbench_def bundle_inv_def)

subsection \<open>A timer that fires after the preview was closed\<close>

text \<open>
  What the timer callback does to its own bundle. Take any state the tracker can reach
  after its construction in which a debounce timer is pending, and let it become due
  while no visible editor is a markdown preview of the timer's document. When the timer
  fires, the reload it requests finds no preview and returns false; the callback makes no
  \<open>editor.reload\<close> call and runs \<open>unbind\<close>: the registrations its bundle still holds
  are disposed, the bundle's own content-change listener is not registered afterwards,
  and the document's flag in \<open>hasModelListenerOnResourcePath\<close> is false.
\<close>

theorem timer_after_preview_closed_unbinds:
  assumes "w = run sv evs (constructor sv theme config (workbench a v m))"
      and "timers w = [t]" and "t_due t \<le> now w + d"
      and "cl_markdownResource (closures w (t_closure t)) = r"
      and "\<not> list_ex (is_reload_target (Some r)) (visibleEditors w)"
  shows "fst (reloadMarkdownEditors False (Some r) w) = False
       \<and> trace (step sv (Elapse d) w) =
           trace w @ ReloadMarkdownEditors False (Some r)
             # map Dispose (cl_toUnbind (closures w (t_closure t)))
       \<and> filter is_editor_reload (drop (length (trace w)) (trace (step sv (Elapse d) w))) = []
       \<and> hasModelListenerOnResourcePath (step sv (Elapse d) w) r = Some False
       \<and> ContentListener r (t_closure t) \<notin> set (listeners (step sv (Elapse d) w))"
proof -
  have "bundle_inv w"
    unfolding assms(1)
    using inv_constructor bundle_inv_constructor by (intro bundle_inv_run) blast+
  then have b: "ContentListener r (t_closure t) \<in> set (listeners w) \<Longrightarrow>
      ContentListener r (t_closure t) \<in> set (cl_toUnbind (closures w (t_closure t)))"
    by (simp add: bundle_inv_def)
  have e: "step sv (Elapse d) w =
      unbind (t_closure t)
        (w\<lparr>now := now w + d, timers := [],
           trace := trace w @ [ReloadMarkdownEditors False (Some r)]\<rparr>)"
    using assms(2-5) by (simp add: elapse_single_due onReloadTimeout_eq Let_def editor_reloads_none)
  have "filter is_editor_reload (map Dispose ds) = []" for ds
    by (induction ds) simp_all
  then show ?thesis
    using assms(4,5) b unfolding e by (auto simp add: unbind_eq reloadMarkdownEditors_eq)
qed

lemma pending0_timers: "timers pending0 = [\<lparr>t_id = 1, t_due = 300, t_closure = 0\<rparr>]"
  by code_simp

lemma pending0_now: "now pending0 = 0"
  by code_simp

lemma pending0_closure:
  "cl_markdownResource (closures pending0 0) = ''a.md''"
  "cl_toUnbind (closures pending0 0) =
     [ContentListener ''a.md'' 0, InputDisposeListener 1 0, ModelDisposeListener ''a.md'' 0]"
  by code_simp+

lemma pending0_visible: "visibleEditors pending0 = []"
  by code_simp

theorem timer_after_preview_closed_unbinds_witness:
  "hasModelListenerOnResourcePath pending0 ''a.md'' = Some True
   \<and> ContentListener ''a.md'' 0 \<in> set (listeners pending0)
   \<and> hasModelListenerOnResourcePath (step sv0 (Elapse 300) pending0) ''a.md'' = Some False
   \<and> ContentListener ''a.md'' 0 \<notin> set (listeners (step sv0 (Elapse 300) pending0))
   \<and> filter is_editor_reload
        (drop (length (trace pending0)) (trace (step sv0 (Elapse 300) pending0))) = []"
proof -
  have a: "hasModelListenerOnResourcePath pending0 ''a.md'' = Some True"
    by code_simp
  have b: "ContentListener ''a.md'' 0 \<in> set (listeners pending0)"
    by code_simp
  have s: "pending0 =
      run sv0 [EditorsChanged, ContentChanged ''a.md'', HostUpdate None [] [''a.md'']]
        (constructor sv0 (Some ''vs-dark'') (styles_config [''a.css''])
          (workbench (Some (MarkdownEditorInput 1 ''a.md'')) [preview 7 1 ''a.md''] [''a.md'']))"
    by (simp add: pending0_def tracker0_def)
  show ?thesis
    using a b
      timer_after_preview_closed_unbinds
        [OF s, of "\<lparr>t_id = 1, t_due = 300, t_closure = 0\<rparr>" 300 "''a.md''"]
    by (simp add: pending0_timers pending0_now pending0_closure pending0_visible)
qed

text \<open>
  Claim C5. The claim asks that a timer which fires after the preview was closed leave
  the document without a content-change listener and with its flag false. In the run
  below the preview of \<open>a.md\<close> is closed 100 ms after the change, while the timer is
  pending, then opened again, which attaches a second bundle, and hidden. When the timer
  of the first bundle becomes due, no preview of \<open>a.md\<close> is visible: the callback
  requests the reload, which reloads no editor, and runs \<open>unbind\<close> of the first bundle,
  which has nothing left to dispose. The flag of \<open>a.md\<close> is false afterwards, but the
  content-change listener of the second bundle is still registered on the document.
\<close>

theorem stale_timer_leaves_document_listener:
  "timers (run sv0 stale_timer_due tracker0) = [\<lparr>t_id = 1, t_due = 300, t_closure = 0\<rparr>]
   \<and> now (run sv0 stale_timer_due tracker0) = 250
   \<and> cl_markdownResource (closures (run sv0 stale_timer_due tracker0) 0) = ''a.md''
   \<and> visibleEditors (run sv0 stale_timer_due tracker0) = []
   \<and> hasModelListenerOnResourcePath (run sv0 stale_timer_due tracker0) ''a.md'' = Some True
   \<and> drop (length (trace (run sv0 stale_timer_due tracker0)))
        (trace (step sv0 (Elapse 50) (run sv0 stale_timer_due tracker0))) =
       [ReloadMarkdownEditors False (Some ''a.md'')]
   \<and> hasModelListenerOnResourcePath (step sv0 (Elapse 50) (run sv0 stale_timer_due tracker0))
        ''a.md'' = Some False
   \<and> filter (is_content_listener ''a.md'')
        (listeners (step sv0 (Elapse 50) (run sv0 stale_timer_due tracker0))) =
       [ContentListener ''a.md'' 1]"
  by code_simp

subsection \<open>Debouncing\<close>

text \<open>
  Claim C2. Take any state the tracker can reach after its construction, and a document
  with a content-change listener attached. After a burst of one or more content changes
  of the document, each less than 300 ms after the one before, exactly one timer is
  pending and no reload was invoked during the burst. No reload is invoked while less
  than 300 ms have passed since the last change; once 300 ms have passed, exactly one
  reload is invoked, for that document and with \<open>clearIFrame = false\<close>. In every
  reachable state at most one timer is pending.
\<close>

theorem debounced_changes_reload_once:
  assumes "w = run sv evs (constructor sv theme config (workbench a v m))"
      and "ContentListener r c \<in> set (listeners w)"
      and "\<forall>d \<in> set ds. d < 300"
  shows "length (timers w) \<le> 1
       \<and> length (timers (run sv (content_burst r ds) w)) = 1
       \<and> reload_invocations (trace (run sv (content_burst r ds) w)) = reload_invocations (trace w)
       \<and> (\<forall>d < 300. reload_invocations (trace (run sv (content_burst r ds @ [Elapse d]) w)) =
            reload_invocations (trace w))
       \<and> (\<forall>d \<ge> 300. reload_invocations (trace (run sv (content_burst r ds @ [Elapse d]) w)) =
            reload_invocations (trace w) @ [ReloadMarkdownEditors False (Some r)])"
proof -
  have i: "timer_inv w" "closure_inv w"
    using inv_run [OF conjunct1 [OF inv_constructor] conjunct2 [OF inv_constructor]]
    unfolding assms(1) by blast+
  let ?w' = "run sv (content_burst r ds) w"
  from burst_lemma [OF i assms(2,3)] obtain t where t:
      "timers ?w' = [t]" "t_due t = now ?w' + 300"
      "cl_markdownResource (closures ?w' (t_closure t)) = r"
      "reload_invocations (trace ?w') = reload_invocations (trace w)"
    by blast
  have early: "reload_invocations (trace (run sv (content_burst r ds @ [Elapse d]) w)) =
      reload_invocations (trace w)" if "d < 300" for d
  proof -
    have "elapse d ?w' = ?w'\<lparr>now := now ?w' + d\<rparr>"
      using t(2) that by (intro elapse_single_not_due [OF t(1)]) simp
    then show ?thesis
      by (simp add: run_append run_def[of sv "[_]"] t(4))
  qed
  have late: "reload_invocations (trace (run sv (content_burst r ds @ [Elapse d]) w)) =
      reload_invocations (trace w) @ [ReloadMarkdownEditors False (Some r)]" if "300 \<le> d" for d
  proof -
    have "elapse d ?w' = onReloadTimeout (t_closure t) (?w'\<lparr>now := now ?w' + d, timers := []\<rparr>)"
      using t(2) that by (intro elapse_single_due [OF t(1)]) simp
    then show ?thesis
      by (simp add: run_append run_def[of sv "[_]"] onReloadTimeout_reload_invocations t(3,4))
  qed
  show ?thesis
    using i(1) t(1,4) early late by (simp add: timer_inv_def)
qed

lemma burst_start_listener: "ContentListener ''a.md'' 0 \<in> set (listeners burst_start)"
  by code_simp

lemma burst_start_trace: "reload_invocations (trace burst_start) = []"
  by code_simp

theorem debounced_changes_reload_once_witness:
  "ContentListener ''a.md'' 0 \<in> set (listeners burst_start)
   \<and> (100 :: nat) < 300 \<and> (299 :: nat) < 300
   \<and> length (timers (run sv0 (content_burst ''a.md'' [100, 299]) burst_start)) = 1
   \<and> reload_invocations
        (trace (run sv0 (content_burst ''a.md'' [100, 299] @ [Elapse 299]) burst_start)) = []
   \<and> reload_invocations
        (trace (run sv0 (content_burst ''a.md'' [100, 299] @ [Elapse 300]) burst_start)) =
       [ReloadMarkdownEditors False (Some ''a.md'')]"
proof -
  have s: "burst_start =
      run sv0 [EditorsChanged]
        (constructor sv0 (Some ''vs-dark'') (styles_config [''a.css''])
          (workbench (Some (MarkdownEditorInput 1 ''a.md'')) [preview 7 1 ''a.md''] [''a.md'']))"
    by (simp add: burst_start_def tracker0_def)
  have d: "\<forall>d \<in> set [100, 299 :: nat]. d < 300"
    by simp
  show ?thesis
    using debounced_changes_reload_once [OF s burst_start_listener d] burst_start_listener
    by (simp add: burst_start_trace)
qed

subsection \<open>One listener per document\<close>

text \<open>
  \<open>unbind\<close> on a bundle that is already torn down disposes nothing and still sets the
  flag of the bundle's document to false.
\<close>

lemma unbind_torn_down_bundle:
  assumes "cl_toUnbind (closures w c) = []"
  shows "listeners (unbind c w) = listeners w
       \<and> hasModelListenerOnResourcePath (unbind c w) (cl_markdownResource (closures w c)) = Some False"
  using assms by (simp add: unbind_eq)

text \<open>
  Claim C8. The flag of a document is meant to be set exactly while the document has a
  content-change listener, so that \<open>onEditorsChanged\<close> attaches at most one. The timer
  callback of a bundle that was already torn down still runs \<open>unbind\<close>, which clears the
  flag of the document although a newer bundle of the same document is registered. In
  the run below the flag of \<open>a.md\<close> is false after the stale timer has fired while the
  second bundle's content listener is registered, and showing the preview again attaches
  a second content listener to the same document.
\<close>

theorem stale_timer_attaches_second_content_listener:
  "hasModelListenerOnResourcePath (run sv0 stale_timer_fired tracker0) ''a.md'' = Some False
   \<and> filter (is_content_listener ''a.md'') (listeners (run sv0 stale_timer_fired tracker0)) =
       [ContentListener ''a.md'' 1]
   \<and> filter (is_content_listener ''a.md'')
        (listeners (run sv0 (stale_timer_fired @ preview_shown_again) tracker0)) =
       [ContentListener ''a.md'' 1, ContentListener ''a.md'' 2]"
  by code_simp

end
